theory Spec2Isabelle
  imports Main
begin

section \<open>Data model\<close>

text \<open>
  Opaque YAML values.  They are the contents of \<open>meta\<close> and \<open>tests\<close> (typed
  \<open>Dict[str, Any]\<close> and \<open>List[Any]\<close> in the program) and the raw data that
  \<open>YamlHandler\<close> reads and writes.  A Python dict keeps insertion order, so a mapping is
  the list of its items.
\<close>

datatype yval =
    YNull
  | YBool bool
  | YInt int
  | YStr string
  | YSeq "yval list"
  | YMap "(string \<times> yval) list"

text \<open>
  Modelled from the spec: the declarations of \<open>types/bigquery.py\<close> (\<open>BigQueryColumn\<close>,
  \<open>BigQueryTable\<close>) are missing from the source tree.  The fields are the ones that
  \<open>merge_strategy.py\<close> reads; the spec gives a remote column a name, a declared type and an
  optional description, and a remote table an id, an optional description and its columns.
\<close>

record BigQueryColumn =
  bq_name :: string
  field_type :: string
  bq_description :: "string option"

record BigQueryTable =
  table_id :: string
  bqt_description :: "string option"
  bqt_columns :: "BigQueryColumn list"

text \<open>
  Modelled from the spec: the declarations of \<open>types/dbt.py\<close> (\<open>DbtColumn\<close>, \<open>DbtTable\<close>,
  \<open>DbtSource\<close>, \<open>DbtSourceFile\<close>) are missing from the source tree.  The fields are
  the keyword arguments that \<open>merge_strategy.py\<close> and \<open>yaml_handler.py\<close> pass to the
  constructors; a description is a string that defaults to the empty string, the other
  optional fields default to \<open>None\<close>.  The fields \<open>name\<close>, \<open>description\<close>, \<open>meta\<close>,
  \<open>tests\<close>, \<open>columns\<close> and \<open>tables\<close> carry a prefix because one theory cannot declare the same
  field name in two records.
\<close>

record DbtColumn =
  col_name :: string
  data_type :: "string option"
  col_description :: string
  col_meta :: "(string \<times> yval) list option"
  col_tests :: "yval list option"

record DbtTable =
  tbl_name :: string
  tbl_identifier :: "string option"
  tbl_description :: string
  tbl_columns :: "DbtColumn list"
  tbl_meta :: "(string \<times> yval) list option"
  tbl_tests :: "yval list option"

record DbtSource =
  src_name :: string
  database :: "string option"
  schema_name :: "string option"
  src_description :: string
  src_tables :: "DbtTable list"
  src_meta :: "(string \<times> yval) list option"

record DbtSourceFile =
  version :: int
  sources :: "DbtSource list"

section \<open>Python idioms used by the program\<close>

text \<open>
  \<open>{x.key: x for x in xs}\<close>: a dict comprehension assigns the items from left to right,
  so a later item with the same key replaces an earlier one.
\<close>

definition index_by :: "('a \<Rightarrow> string) \<Rightarrow> 'a list \<Rightarrow> (string \<rightharpoonup> 'a)" where
  "index_by key xs = foldl (\<lambda>m x. m(key x \<mapsto> x)) Map.empty xs"

text \<open>
  \<open>d or r or ""\<close> for a string \<open>d\<close> and an optional string \<open>r\<close>: the first operand that is
  truthy (neither \<open>None\<close> nor empty), else the empty string.
\<close>

definition description_or :: "string \<Rightarrow> string option \<Rightarrow> string" where
  "description_or d r =
     (if d \<noteq> [] then d
      else (case r of
              None \<Rightarrow> []
            | Some s \<Rightarrow> (if s \<noteq> [] then s else [])))"

text \<open>\<open>a or b\<close> for an optional string \<open>a\<close> and a string \<open>b\<close>.\<close>

definition opt_or :: "string option \<Rightarrow> string \<Rightarrow> string" where
  "opt_or a b =
     (case a of
        None \<Rightarrow> b
      | Some s \<Rightarrow> (if s \<noteq> [] then s else b))"

section \<open>\<open>logic/source_builder.py\<close>\<close>

text \<open>
  Modelled from the spec: \<open>build_column_from_bigquery\<close> of \<open>logic/source_builder.py\<close>, which
  is missing from the source tree.  The spec: a new column is "constructed purely from the
  remote descriptor: data type from remote, description from remote (or empty), metadata/tests
  absent".
\<close>

definition build_column_from_bigquery :: "BigQueryColumn \<Rightarrow> DbtColumn" where
  "build_column_from_bigquery bq_col =
     \<lparr> col_name = bq_name bq_col,
       data_type = Some (field_type bq_col),
       col_description = (case bq_description bq_col of None \<Rightarrow> [] | Some d \<Rightarrow> d),
       col_meta = None,
       col_tests = None \<rparr>"

text \<open>
  Modelled from the spec: \<open>build_table_from_bigquery\<close> of \<open>logic/source_builder.py\<close>, which
  is missing from the source tree.  The spec: "name = table id, identifier unset,
  description = remote description or empty, columns = built fresh from each ColumnDescriptor,
  metadata/tests absent".
\<close>

definition build_table_from_bigquery :: "BigQueryTable \<Rightarrow> DbtTable" where
  "build_table_from_bigquery bq_table =
     \<lparr> tbl_name = table_id bq_table,
       tbl_identifier = None,
       tbl_description = (case bqt_description bq_table of None \<Rightarrow> [] | Some d \<Rightarrow> d),
       tbl_columns = map build_column_from_bigquery (bqt_columns bq_table),
       tbl_meta = None,
       tbl_tests = None \<rparr>"

section \<open>\<open>logic/merge_strategy.py\<close>\<close>

subsection \<open>\<open>merge_columns\<close>\<close>

text \<open>The body of the first loop: the column emitted for one remote column.\<close>

definition merged_col :: "(string \<rightharpoonup> DbtColumn) \<Rightarrow> BigQueryColumn \<Rightarrow> DbtColumn" where
  "merged_col yaml_column_map bq_col =
     (case yaml_column_map (bq_name bq_col) of
        Some yaml_col \<Rightarrow>
          \<lparr> col_name = bq_name bq_col,
            data_type = Some (field_type bq_col),
            col_description = description_or (col_description yaml_col) (bq_description bq_col),
            col_meta = col_meta yaml_col,
            col_tests = col_tests yaml_col \<rparr>
      | None \<Rightarrow> build_column_from_bigquery bq_col)"

text \<open>\<open>for bq_col in bq_columns: ... merged_columns.append(merged_col)\<close>\<close>

fun update_columns ::
  "(string \<rightharpoonup> DbtColumn) \<Rightarrow> BigQueryColumn list \<Rightarrow> DbtColumn list \<Rightarrow> DbtColumn list" where
  "update_columns yaml_column_map [] merged_columns = merged_columns"
| "update_columns yaml_column_map (bq_col # rest) merged_columns =
     update_columns yaml_column_map rest (merged_columns @ [merged_col yaml_column_map bq_col])"

text \<open>
  \<open>for yaml_col in yaml_columns: if yaml_col.name not in bq_column_map:
  merged_columns.append(yaml_col)\<close>
\<close>

fun keep_yaml_columns ::
  "(string \<rightharpoonup> BigQueryColumn) \<Rightarrow> DbtColumn list \<Rightarrow> DbtColumn list \<Rightarrow> DbtColumn list" where
  "keep_yaml_columns bq_column_map [] merged_columns = merged_columns"
| "keep_yaml_columns bq_column_map (yaml_col # rest) merged_columns =
     (if bq_column_map (col_name yaml_col) = None
      then keep_yaml_columns bq_column_map rest (merged_columns @ [yaml_col])
      else keep_yaml_columns bq_column_map rest merged_columns)"

definition merge_columns ::
  "BigQueryColumn list \<Rightarrow> DbtColumn list \<Rightarrow> bool \<Rightarrow> DbtColumn list" where
  "merge_columns bq_columns yaml_columns remove_deleted =
     (let bq_column_map = index_by bq_name bq_columns;
          yaml_column_map = index_by col_name yaml_columns;
          merged_columns = update_columns yaml_column_map bq_columns []
      in if \<not> remove_deleted
         then keep_yaml_columns bq_column_map yaml_columns merged_columns
         else merged_columns)"

subsection \<open>\<open>merge_table\<close>\<close>

text \<open>
  \<open>if not yaml_table\<close> is the test for \<open>None\<close>: an instance of the model class is truthy.
  \<open>yaml_table.columns if yaml_table.columns else []\<close> is \<open>yaml_table.columns\<close> for a list.
\<close>

definition merge_table :: "BigQueryTable \<Rightarrow> DbtTable option \<Rightarrow> bool \<Rightarrow> DbtTable" where
  "merge_table bq_table yaml_table remove_deleted_columns =
     (case yaml_table of
        None \<Rightarrow> build_table_from_bigquery bq_table
      | Some yt \<Rightarrow>
          \<lparr> tbl_name = tbl_name yt,
            tbl_identifier = tbl_identifier yt,
            tbl_description = description_or (tbl_description yt) (bqt_description bq_table),
            tbl_columns = merge_columns (bqt_columns bq_table) (tbl_columns yt) remove_deleted_columns,
            tbl_meta = tbl_meta yt,
            tbl_tests = tbl_tests yt \<rparr>)"

subsection \<open>\<open>merge_sources\<close>\<close>

text \<open>
  \<open>for bq_table in bq_tables: yaml_table = yaml_table_map.get(bq_table.table_id); ...
  merged_tables.append(merged_table)\<close>
\<close>

fun update_tables ::
  "(string \<rightharpoonup> DbtTable) \<Rightarrow> bool \<Rightarrow> BigQueryTable list \<Rightarrow> DbtTable list \<Rightarrow> DbtTable list" where
  "update_tables yaml_table_map rdc [] merged_tables = merged_tables"
| "update_tables yaml_table_map rdc (bq_table # rest) merged_tables =
     update_tables yaml_table_map rdc rest
       (merged_tables @ [merge_table bq_table (yaml_table_map (table_id bq_table)) rdc])"

text \<open>
  \<open>for yaml_table in yaml_source.tables: if yaml_table.name not in bq_table_map:
  merged_tables.append(yaml_table)\<close>
\<close>

fun keep_yaml_tables ::
  "(string \<rightharpoonup> BigQueryTable) \<Rightarrow> DbtTable list \<Rightarrow> DbtTable list \<Rightarrow> DbtTable list" where
  "keep_yaml_tables bq_table_map [] merged_tables = merged_tables"
| "keep_yaml_tables bq_table_map (yaml_table # rest) merged_tables =
     (if bq_table_map (tbl_name yaml_table) = None
      then keep_yaml_tables bq_table_map rest (merged_tables @ [yaml_table])
      else keep_yaml_tables bq_table_map rest merged_tables)"

definition merge_sources ::
  "BigQueryTable list \<Rightarrow> DbtSource option \<Rightarrow> string \<Rightarrow> string \<Rightarrow> string \<Rightarrow> bool \<Rightarrow> bool
     \<Rightarrow> DbtSource" where
  "merge_sources bq_tables yaml_source source_name project_id dataset_id
       remove_deleted_tables remove_deleted_columns =
     (let ys = (case yaml_source of
                  None \<Rightarrow>
                    \<lparr> src_name = source_name,
                      database = Some project_id,
                      schema_name = Some dataset_id,
                      src_description = [],
                      src_tables = [],
                      src_meta = None \<rparr>
                | Some s \<Rightarrow> s);
          bq_table_map = index_by table_id bq_tables;
          yaml_table_map = index_by tbl_name (src_tables ys);
          merged_tables = update_tables yaml_table_map remove_deleted_columns bq_tables [];
          merged_tables' =
            (if \<not> remove_deleted_tables
             then keep_yaml_tables bq_table_map (src_tables ys) merged_tables
             else merged_tables)
      in \<lparr> src_name = src_name ys,
           database = Some (opt_or (database ys) project_id),
           schema_name = Some (opt_or (schema_name ys) dataset_id),
           src_description = src_description ys,
           src_tables = merged_tables',
           src_meta = src_meta ys \<rparr>)"

subsection \<open>\<open>merge_source_file\<close>\<close>

text \<open>\<open>source.name == source_name or source.schema_name == dataset_id\<close>\<close>

definition source_matches :: "string \<Rightarrow> string \<Rightarrow> DbtSource \<Rightarrow> bool" where
  "source_matches source_name dataset_id source \<longleftrightarrow>
     src_name source = source_name \<or> schema_name source = Some dataset_id"

text \<open>
  The loop over \<open>yaml_file.sources\<close>, on the pair of its two variables
  \<open>(yaml_source, other_sources)\<close>: a matching source is assigned to \<open>yaml_source\<close>, any other
  source is appended to \<open>other_sources\<close>.
\<close>

fun find_source ::
  "string \<Rightarrow> string \<Rightarrow> DbtSource list \<Rightarrow> DbtSource option \<times> DbtSource list
     \<Rightarrow> DbtSource option \<times> DbtSource list" where
  "find_source source_name dataset_id [] st = st"
| "find_source source_name dataset_id (source # rest) (yaml_source, other_sources) =
     (if source_matches source_name dataset_id source
      then find_source source_name dataset_id rest (Some source, other_sources)
      else find_source source_name dataset_id rest (yaml_source, other_sources @ [source]))"

definition merge_source_file ::
  "BigQueryTable list \<Rightarrow> DbtSourceFile option \<Rightarrow> string \<Rightarrow> string \<Rightarrow> string \<Rightarrow> bool \<Rightarrow> bool
     \<Rightarrow> DbtSourceFile" where
  "merge_source_file bq_tables yaml_file source_name project_id dataset_id
       remove_deleted_tables remove_deleted_columns =
     (let yf = (case yaml_file of
                  None \<Rightarrow> \<lparr> version = 2, sources = [] \<rparr>
                | Some f \<Rightarrow> f);
          (yaml_source, other_sources) = find_source source_name dataset_id (sources yf) (None, []);
          merged_source = merge_sources bq_tables yaml_source source_name project_id dataset_id
                            remove_deleted_tables remove_deleted_columns;
          all_sources = other_sources @ [merged_source]
      in \<lparr> version = version yf, sources = all_sources \<rparr>)"

text \<open>The tables of the existing source, if there is one (\<open>yaml_source.tables\<close>).\<close>

definition existing_tables :: "DbtSource option \<Rightarrow> DbtTable list" where
  "existing_tables yaml_source = (case yaml_source of None \<Rightarrow> [] | Some s \<Rightarrow> src_tables s)"

text \<open>
  The uniqueness invariants of a snapshot (spec, section 3): table ids are unique within the
  snapshot and column names are unique within each remote table.
\<close>

definition unique_names :: "BigQueryTable list \<Rightarrow> bool" where
  "unique_names bq_tables \<longleftrightarrow>
     distinct (map table_id bq_tables) \<and>
     (\<forall>t \<in> set bq_tables. distinct (map bq_name (bqt_columns t)))"

text \<open>
  The table list that \<open>merge_sources\<close> returns, as a function of the snapshot and of the
  tables of the existing source.
\<close>

definition merged_tables_of :: "BigQueryTable list \<Rightarrow> DbtTable list \<Rightarrow> bool \<Rightarrow> bool \<Rightarrow> DbtTable list" where
  "merged_tables_of bqs ts rdt rdc =
     map (\<lambda>b. merge_table b (index_by tbl_name ts (table_id b)) rdc) bqs @
     (if rdt then [] else filter (\<lambda>t. tbl_name t \<notin> table_id ` set bqs) ts)"

section \<open>\<open>io/yaml_handler.py\<close>\<close>

subsection \<open>\<open>_serialize_source_file\<close>\<close>

text \<open>
  \<open>if x: data[key] = x\<close> for an optional string, an optional mapping and an optional list:
  the item is added when the value is truthy, that is neither \<open>None\<close> nor empty.
\<close>

definition put_str :: "string \<Rightarrow> string option \<Rightarrow> (string \<times> yval) list" where
  "put_str key x =
     (case x of None \<Rightarrow> [] | Some s \<Rightarrow> (if s \<noteq> [] then [(key, YStr s)] else []))"

definition put_meta :: "string \<Rightarrow> (string \<times> yval) list option \<Rightarrow> (string \<times> yval) list" where
  "put_meta key x =
     (case x of None \<Rightarrow> [] | Some m \<Rightarrow> (if m \<noteq> [] then [(key, YMap m)] else []))"

definition put_tests :: "string \<Rightarrow> yval list option \<Rightarrow> (string \<times> yval) list" where
  "put_tests key x =
     (case x of None \<Rightarrow> [] | Some ts \<Rightarrow> (if ts \<noteq> [] then [(key, YSeq ts)] else []))"

text \<open>
  The three dictionaries of the nested loops, each the list of its items in the order of the
  assignments (the keys assigned are different, so no assignment replaces an item).
\<close>

definition column_data :: "DbtColumn \<Rightarrow> (string \<times> yval) list" where
  "column_data column =
     [(''name'', YStr (col_name column))]
     @ put_str ''data_type'' (data_type column)
     @ put_str ''description'' (Some (col_description column))
     @ put_meta ''meta'' (col_meta column)
     @ put_tests ''tests'' (col_tests column)"

definition table_data :: "DbtTable \<Rightarrow> (string \<times> yval) list" where
  "table_data table =
     [(''name'', YStr (tbl_name table))]
     @ put_str ''identifier'' (tbl_identifier table)
     @ put_str ''description'' (Some (tbl_description table))
     @ put_meta ''meta'' (tbl_meta table)
     @ put_tests ''tests'' (tbl_tests table)
     @ (if tbl_columns table \<noteq> []
        then [(''columns'', YSeq (map (\<lambda>column. YMap (column_data column)) (tbl_columns table)))]
        else [])"

definition source_data :: "DbtSource \<Rightarrow> (string \<times> yval) list" where
  "source_data source =
     [(''name'', YStr (src_name source))]
     @ put_str ''database'' (database source)
     @ put_str ''schema'' (schema_name source)
     @ put_str ''description'' (Some (src_description source))
     @ put_meta ''meta'' (src_meta source)
     @ [(''tables'', YSeq (map (\<lambda>table. YMap (table_data table)) (src_tables source)))]"

definition serialize_source_file :: "DbtSourceFile \<Rightarrow> yval" where
  "serialize_source_file source_file =
     YMap [(''version'', YInt (version source_file)),
           (''sources'', YSeq (map (\<lambda>source. YMap (source_data source)) (sources source_file)))]"

subsection \<open>\<open>_parse_source_file\<close>\<close>

datatype error = KeyError | TypeError | AttributeError | ValidationError

definition and_then :: "error + 'a \<Rightarrow> ('a \<Rightarrow> error + 'b) \<Rightarrow> error + 'b" where
  "and_then r f = (case r of Inl e \<Rightarrow> Inl e | Inr v \<Rightarrow> f v)"

fun traverse :: "('a \<Rightarrow> error + 'b) \<Rightarrow> 'a list \<Rightarrow> error + 'b list" where
  "traverse f [] = Inr []"
| "traverse f (x # xs) =
     and_then (f x) (\<lambda>y. and_then (traverse f xs) (\<lambda>ys. Inr (y # ys)))"

text \<open>Python truthiness of a YAML value (\<open>if table_data.get("columns")\<close>).\<close>

fun truthy :: "yval \<Rightarrow> bool" where
  "truthy YNull = False"
| "truthy (YBool b) = b"
| "truthy (YInt i) = (i \<noteq> 0)"
| "truthy (YStr s) = (s \<noteq> [])"
| "truthy (YSeq xs) = (xs \<noteq> [])"
| "truthy (YMap m) = (m \<noteq> [])"

text \<open>
  \<open>for item in value\<close>: a sequence gives its elements, a string its characters, a mapping its
  keys; any other value is not iterable.
\<close>

fun iter_items :: "yval \<Rightarrow> error + yval list" where
  "iter_items (YSeq xs) = Inr xs"
| "iter_items (YStr s) = Inr (map (\<lambda>c. YStr [c]) s)"
| "iter_items (YMap m) = Inr (map (\<lambda>(k, v). YStr k) m)"
| "iter_items _ = Inl TypeError"

text \<open>
  Modelled from the spec: the validation of field values by the constructors of
  \<open>types/dbt.py\<close>, which is missing from the source tree.  A value of the type of the field
  is stored; \<open>None\<close> is stored in an optional field and rejected by \<open>name\<close> and \<open>description\<close>
  (the spec: a description is "never null"); a value of another type is rejected.  The
  argument is the result of \<open>data.get(key)\<close>, which is \<open>None\<close> for a missing key, and of
  \<open>data.get(key, default)\<close> for \<open>description\<close> and \<open>version\<close>.
\<close>

fun as_name :: "yval \<Rightarrow> error + string" where
  "as_name (YStr s) = Inr s"
| "as_name _ = Inl ValidationError"

fun as_opt_str :: "yval option \<Rightarrow> error + string option" where
  "as_opt_str None = Inr None"
| "as_opt_str (Some YNull) = Inr None"
| "as_opt_str (Some (YStr s)) = Inr (Some s)"
| "as_opt_str (Some _) = Inl ValidationError"

fun as_description :: "yval option \<Rightarrow> error + string" where
  "as_description None = Inr []"
| "as_description (Some (YStr s)) = Inr s"
| "as_description (Some _) = Inl ValidationError"

fun as_meta :: "yval option \<Rightarrow> error + (string \<times> yval) list option" where
  "as_meta None = Inr None"
| "as_meta (Some YNull) = Inr None"
| "as_meta (Some (YMap m)) = Inr (Some m)"
| "as_meta (Some _) = Inl ValidationError"

fun as_tests :: "yval option \<Rightarrow> error + yval list option" where
  "as_tests None = Inr None"
| "as_tests (Some YNull) = Inr None"
| "as_tests (Some (YSeq ts)) = Inr (Some ts)"
| "as_tests (Some _) = Inl ValidationError"

fun as_version :: "yval option \<Rightarrow> error + int" where
  "as_version None = Inr 2"
| "as_version (Some (YInt v)) = Inr v"
| "as_version (Some _) = Inl ValidationError"

text \<open>
  The body of the innermost loop, on the raw \<open>column_data\<close>.  \<open>column_data["name"]\<close> raises \<open>KeyError\<close> for a mapping
  without the key and \<open>TypeError\<close> for a value that is not a mapping.
\<close>

definition parse_column :: "yval \<Rightarrow> error + DbtColumn" where
  "parse_column raw =
     (case raw of
        YMap d \<Rightarrow>
          (case map_of d ''name'' of
             None \<Rightarrow> Inl KeyError
           | Some n \<Rightarrow>
               and_then (as_name n) (\<lambda>name.
               and_then (as_opt_str (map_of d ''data_type'')) (\<lambda>dt.
               and_then (as_description (map_of d ''description'')) (\<lambda>description.
               and_then (as_meta (map_of d ''meta'')) (\<lambda>meta.
               and_then (as_tests (map_of d ''tests'')) (\<lambda>tests.
               Inr \<lparr> col_name = name, data_type = dt, col_description = description,
                     col_meta = meta, col_tests = tests \<rparr>))))))
      | _ \<Rightarrow> Inl TypeError)"

text \<open>
  The body of the loop over the tables, on the raw \<open>table_data\<close>: the columns first (when \<open>table_data.get("columns")\<close>
  is truthy), then the table.  \<open>table_data.get\<close> raises \<open>AttributeError\<close> for a value that is
  not a mapping.
\<close>

definition parse_table :: "yval \<Rightarrow> error + DbtTable" where
  "parse_table raw =
     (case raw of
        YMap d \<Rightarrow>
          and_then
            (case map_of d ''columns'' of
               None \<Rightarrow> Inr []
             | Some v \<Rightarrow>
                 (if truthy v then and_then (iter_items v) (traverse parse_column) else Inr []))
            (\<lambda>columns.
               (case map_of d ''name'' of
                  None \<Rightarrow> Inl KeyError
                | Some n \<Rightarrow>
                    and_then (as_name n) (\<lambda>name.
                    and_then (as_opt_str (map_of d ''identifier'')) (\<lambda>ident.
                    and_then (as_description (map_of d ''description'')) (\<lambda>description.
                    and_then (as_meta (map_of d ''meta'')) (\<lambda>meta.
                    and_then (as_tests (map_of d ''tests'')) (\<lambda>tests.
                    Inr \<lparr> tbl_name = name, tbl_identifier = ident,
                          tbl_description = description, tbl_columns = columns,
                          tbl_meta = meta, tbl_tests = tests \<rparr>)))))))
      | _ \<Rightarrow> Inl AttributeError)"

text \<open>
  The body of the loop over the sources, on the raw \<open>source_data\<close>:
  \<open>source_data.get("tables", [])\<close> first.
\<close>

definition parse_source :: "yval \<Rightarrow> error + DbtSource" where
  "parse_source raw =
     (case raw of
        YMap d \<Rightarrow>
          and_then
            (case map_of d ''tables'' of
               None \<Rightarrow> Inr []
             | Some v \<Rightarrow> and_then (iter_items v) (traverse parse_table))
            (\<lambda>tables.
               (case map_of d ''name'' of
                  None \<Rightarrow> Inl KeyError
                | Some n \<Rightarrow>
                    and_then (as_name n) (\<lambda>name.
                    and_then (as_opt_str (map_of d ''database'')) (\<lambda>db.
                    and_then (as_opt_str (map_of d ''schema'')) (\<lambda>schema.
                    and_then (as_description (map_of d ''description'')) (\<lambda>description.
                    and_then (as_meta (map_of d ''meta'')) (\<lambda>meta.
                    Inr \<lparr> src_name = name, database = db, schema_name = schema,
                          src_description = description, src_tables = tables,
                          src_meta = meta \<rparr>)))))))
      | _ \<Rightarrow> Inl AttributeError)"

definition parse_source_file :: "yval \<Rightarrow> error + DbtSourceFile" where
  "parse_source_file data =
     (case data of
        YMap d \<Rightarrow>
          and_then
            (case map_of d ''sources'' of
               None \<Rightarrow> Inr []
             | Some v \<Rightarrow> and_then (iter_items v) (traverse parse_source))
            (\<lambda>sources.
               and_then (as_version (map_of d ''version'')) (\<lambda>v.
               Inr \<lparr> version = v, sources = sources \<rparr>))
      | _ \<Rightarrow> Inl AttributeError)"

subsection \<open>What a round trip keeps\<close>

text \<open>
  An optional field in the domain of the round trip: unset, or set to a value that is not
  empty.  Outside of it the field comes back unset.
\<close>

definition unset_or_nonempty :: "'a list option \<Rightarrow> bool" where
  "unset_or_nonempty x \<longleftrightarrow> x \<noteq> Some []"

definition unset_if_empty :: "'a list option \<Rightarrow> 'a list option" where
  "unset_if_empty x = (if x = Some [] then None else x)"

definition column_in_domain :: "DbtColumn \<Rightarrow> bool" where
  "column_in_domain c \<longleftrightarrow>
     unset_or_nonempty (data_type c) \<and> unset_or_nonempty (col_meta c) \<and>
     unset_or_nonempty (col_tests c)"

definition table_in_domain :: "DbtTable \<Rightarrow> bool" where
  "table_in_domain t \<longleftrightarrow>
     unset_or_nonempty (tbl_identifier t) \<and> unset_or_nonempty (tbl_meta t) \<and>
     unset_or_nonempty (tbl_tests t) \<and> list_all column_in_domain (tbl_columns t)"

definition source_in_domain :: "DbtSource \<Rightarrow> bool" where
  "source_in_domain s \<longleftrightarrow>
     unset_or_nonempty (database s) \<and> unset_or_nonempty (schema_name s) \<and>
     unset_or_nonempty (src_meta s) \<and> list_all table_in_domain (src_tables s)"

definition file_in_domain :: "DbtSourceFile \<Rightarrow> bool" where
  "file_in_domain f \<longleftrightarrow> list_all source_in_domain (sources f)"

definition normalize_column :: "DbtColumn \<Rightarrow> DbtColumn" where
  "normalize_column c =
     \<lparr> col_name = col_name c, data_type = unset_if_empty (data_type c),
       col_description = col_description c, col_meta = unset_if_empty (col_meta c),
       col_tests = unset_if_empty (col_tests c) \<rparr>"

definition normalize_table :: "DbtTable \<Rightarrow> DbtTable" where
  "normalize_table t =
     \<lparr> tbl_name = tbl_name t, tbl_identifier = unset_if_empty (tbl_identifier t),
       tbl_description = tbl_description t,
       tbl_columns = map normalize_column (tbl_columns t),
       tbl_meta = unset_if_empty (tbl_meta t), tbl_tests = unset_if_empty (tbl_tests t) \<rparr>"

definition normalize_source :: "DbtSource \<Rightarrow> DbtSource" where
  "normalize_source s =
     \<lparr> src_name = src_name s, database = unset_if_empty (database s),
       schema_name = unset_if_empty (schema_name s), src_description = src_description s,
       src_tables = map normalize_table (src_tables s),
       src_meta = unset_if_empty (src_meta s) \<rparr>"

definition normalize_source_file :: "DbtSourceFile \<Rightarrow> DbtSourceFile" where
  "normalize_source_file f =
     \<lparr> version = version f, sources = map normalize_source (sources f) \<rparr>"


text \<open>A value that \<open>if x:\<close> lets through: set and not empty.\<close>

definition present :: "'a list option \<Rightarrow> bool" where
  "present x = (case x of None \<Rightarrow> False | Some v \<Rightarrow> v \<noteq> [])"

section \<open>\<open>cli.py\<close>\<close>

text \<open>
  The loop of \<open>apply\<close> that looks for the name of the source:
  \<open>for source in existing_file.sources: if source.schema_name == schema or source.name ==
  schema: source_name = source.name; break\<close>, after \<open>source_name = schema\<close>.
\<close>

fun find_source_name :: "string \<Rightarrow> DbtSource list \<Rightarrow> string" where
  "find_source_name schema [] = schema"
| "find_source_name schema (source # rest) =
     (if schema_name source = Some schema \<or> src_name source = schema
      then src_name source
      else find_source_name schema rest)"

text \<open>
  The update path of \<open>apply\<close> (the output file exists): the document that is written, as a
  function of the tables of the dataset, the document read, and the options.  The two flags
  are the options \<open>--sync-columns\<close> and \<open>--remove-deleted\<close>.
\<close>

definition apply_update ::
  "BigQueryTable list \<Rightarrow> DbtSourceFile option \<Rightarrow> string \<Rightarrow> string \<Rightarrow> bool \<Rightarrow> bool
     \<Rightarrow> DbtSourceFile" where
  "apply_update tables existing_file project_id schema sync_columns remove_deleted =
     (let source_name =
            (case existing_file of
               None \<Rightarrow> schema
             | Some f \<Rightarrow> find_source_name schema (sources f))
      in merge_source_file tables existing_file source_name project_id schema
           remove_deleted (remove_deleted \<and> sync_columns))"

text \<open>
  The flag mapping in the words of the spec: \<open>prune_absent_tables = pruneAbsent\<close> and
  \<open>prune_absent_columns = pruneAbsent AND syncColumns\<close>.
\<close>

definition prune_absent_tables :: "bool \<Rightarrow> bool \<Rightarrow> bool" where
  "prune_absent_tables pruneAbsent syncColumns = pruneAbsent"

definition prune_absent_columns :: "bool \<Rightarrow> bool \<Rightarrow> bool" where
  "prune_absent_columns pruneAbsent syncColumns = (pruneAbsent \<and> syncColumns)"

section \<open>Example data\<close>


definition ex_snapshot :: "BigQueryTable list" where
  "ex_snapshot =
     [\<lparr> table_id = ''t1'', bqt_description = Some ''remote orders'',
        bqt_columns =
          [\<lparr> bq_name = ''id'', field_type = ''INT64'', bq_description = Some ''remote id'' \<rparr>,
           \<lparr> bq_name = ''name'', field_type = ''STRING'', bq_description = None \<rparr>] \<rparr>]"

definition ex_col_id :: DbtColumn where
  "ex_col_id =
     \<lparr> col_name = ''id'', data_type = Some ''STRING'', col_description = ''Primary key'',
       col_meta = Some [(''pii'', YBool False)], col_tests = Some [YStr ''unique''] \<rparr>"

definition ex_col_old :: DbtColumn where
  "ex_col_old =
     \<lparr> col_name = ''old'', data_type = None, col_description = ''gone'',
       col_meta = None, col_tests = None \<rparr>"

definition ex_table_t1 :: DbtTable where
  "ex_table_t1 =
     \<lparr> tbl_name = ''t1'', tbl_identifier = Some ''legacy_t1'', tbl_description = ''Orders'',
       tbl_columns = [ex_col_old, ex_col_id],
       tbl_meta = Some [(''owner'', YStr ''sales'')], tbl_tests = Some [YStr ''fresh''] \<rparr>"

definition ex_table_t2 :: DbtTable where
  "ex_table_t2 =
     \<lparr> tbl_name = ''t2'', tbl_identifier = None, tbl_description = [],
       tbl_columns = [], tbl_meta = None, tbl_tests = None \<rparr>"

definition ex_table_alias :: DbtTable where
  "ex_table_alias =
     \<lparr> tbl_name = ''orders'', tbl_identifier = Some ''t1'', tbl_description = ''Alias'',
       tbl_columns = [], tbl_meta = None, tbl_tests = None \<rparr>"

definition ex_alias_source :: DbtSource where
  "ex_alias_source =
     \<lparr> src_name = ''raw'', database = Some ''p'', schema_name = Some ''ds'',
       src_description = [], src_tables = [ex_table_alias], src_meta = None \<rparr>"

definition ex_source :: DbtSource where
  "ex_source =
     \<lparr> src_name = ''raw'', database = Some ''p'', schema_name = Some ''ds'',
       src_description = ''Raw data'', src_tables = [ex_table_t2, ex_table_t1],
       src_meta = Some [(''team'', YStr ''data'')] \<rparr>"

definition ex_other :: "string \<Rightarrow> DbtSource" where
  "ex_other n =
     \<lparr> src_name = n, database = None, schema_name = Some ''elsewhere'',
       src_description = ''kept'', src_tables = [ex_table_t2], src_meta = None \<rparr>"

definition ex_file :: DbtSourceFile where
  "ex_file = \<lparr> version = 3, sources = [ex_other ''a'', ex_source, ex_other ''b''] \<rparr>"

definition ex_two_matches :: DbtSourceFile where
  "ex_two_matches =
     \<lparr> version = 2,
       sources =
         [\<lparr> src_name = ''a'', database = Some ''p'', schema_name = Some ''ds'',
            src_description = ''first'', src_tables = [ex_table_t2], src_meta = None \<rparr>,
          \<lparr> src_name = ''b'', database = Some ''p'', schema_name = Some ''ds'',
            src_description = ''second'', src_tables = [], src_meta = None \<rparr>] \<rparr>"

definition ex_empty_fields :: DbtSourceFile where
  "ex_empty_fields =
     \<lparr> version = 2,
       sources =
         [\<lparr> src_name = ''raw'', database = None, schema_name = Some ''ds'',
            src_description = [],
            src_tables =
              [\<lparr> tbl_name = ''t1'', tbl_identifier = None, tbl_description = [],
                 tbl_columns =
                   [\<lparr> col_name = ''id'', data_type = Some [], col_description = [],
                      col_meta = Some [], col_tests = Some [] \<rparr>],
                 tbl_meta = None, tbl_tests = None \<rparr>],
            src_meta = None \<rparr>] \<rparr>"

section \<open>Properties of the loops\<close>

lemmas ex_defs = ex_snapshot_def ex_col_id_def ex_col_old_def ex_table_t1_def ex_table_t2_def
  ex_source_def ex_other_def ex_file_def

lemmas merge_defs = merge_source_file_def merge_sources_def merge_table_def merge_columns_def
  merged_col_def build_table_from_bigquery_def build_column_from_bigquery_def index_by_def
  description_or_def opt_or_def source_matches_def


lemma update_columns_eq:
  "update_columns m bqs acc = acc @ map (merged_col m) bqs"
  by (induction bqs arbitrary: acc) simp_all

lemma keep_yaml_columns_eq:
  "keep_yaml_columns m ys acc = acc @ filter (\<lambda>y. m (col_name y) = None) ys"
  by (induction ys arbitrary: acc) simp_all

lemma update_tables_eq:
  "update_tables m rdc bqs acc = acc @ map (\<lambda>b. merge_table b (m (table_id b)) rdc) bqs"
  by (induction bqs arbitrary: acc) simp_all

lemma keep_yaml_tables_eq:
  "keep_yaml_tables m ys acc = acc @ filter (\<lambda>y. m (tbl_name y) = None) ys"
  by (induction ys arbitrary: acc) simp_all

lemma find_source_eq:
  "find_source sn did srcs (sel, others) =
     ((case filter (source_matches sn did) srcs of [] \<Rightarrow> sel | ms \<Rightarrow> Some (last ms)),
      others @ filter (\<lambda>s. \<not> source_matches sn did s) srcs)"
  by (induction srcs arbitrary: sel others) (simp_all split: list.splits)

section \<open>Dictionaries built by comprehension\<close>


lemma index_by_Nil [simp]: "index_by key [] = Map.empty"
  by (simp add: index_by_def)

lemma index_by_snoc [simp]: "index_by key (xs @ [x]) = (index_by key xs)(key x \<mapsto> x)"
  by (simp add: index_by_def)

lemma index_by_last:
  "index_by key xs k =
     (case filter (\<lambda>x. key x = k) xs of [] \<Rightarrow> None | y # ys \<Rightarrow> Some (last (y # ys)))"
  by (induction xs rule: rev_induct) (auto split: list.splits)

lemma index_by_eq_None: "index_by key xs k = None \<longleftrightarrow> k \<notin> key ` set xs"
  by (induction xs rule: rev_induct) auto

lemma index_by_SomeD: "index_by key xs k = Some x \<Longrightarrow> x \<in> set xs \<and> key x = k"
  by (induction xs rule: rev_induct) (auto split: if_splits)

lemma merged_col_name [simp]: "col_name (merged_col m b) = bq_name b"
  by (simp add: merged_col_def build_column_from_bigquery_def split: option.splits)

lemma merge_columns_eq:
  "merge_columns bqs ys rd =
     map (merged_col (index_by col_name ys)) bqs @
     (if rd then [] else filter (\<lambda>y. col_name y \<notin> bq_name ` set bqs) ys)"
  by (simp add: merge_columns_def Let_def update_columns_eq keep_yaml_columns_eq index_by_eq_None)

lemma merge_table_index_name [simp]:
  "tbl_name (merge_table b (index_by tbl_name ts (table_id b)) rdc) = table_id b"
  by (auto simp: merge_table_def build_table_from_bigquery_def dest: index_by_SomeD split: option.splits)

lemma merge_sources_tables:
  "src_tables (merge_sources bqs yo sn pid did rdt rdc) =
     map (\<lambda>b. merge_table b (index_by tbl_name (existing_tables yo) (table_id b)) rdc) bqs @
     (if rdt then [] else filter (\<lambda>t. tbl_name t \<notin> table_id ` set bqs) (existing_tables yo))"
  by (cases yo) (simp_all add: merge_sources_def Let_def update_tables_eq keep_yaml_tables_eq index_by_eq_None existing_tables_def)

lemma merge_source_file_eq:
  "merge_source_file bqs yf sn pid did rdt rdc =
    (let srcs = (case yf of None \<Rightarrow> [] | Some f \<Rightarrow> sources f) in
     \<lparr> version = (case yf of None \<Rightarrow> 2 | Some f \<Rightarrow> version f),
       sources = filter (\<lambda>s. \<not> source_matches sn did s) srcs @
         [merge_sources bqs (case filter (source_matches sn did) srcs of [] \<Rightarrow> None | m # ms \<Rightarrow> Some (last (m # ms))) sn pid did rdt rdc] \<rparr>)"
  by (cases yf) (simp_all add: merge_source_file_def Let_def find_source_eq split: list.splits)


section \<open>Reconciling twice\<close>


lemma description_or_idem [simp]: "description_or (description_or d r) r = description_or d r"
  by (simp add: description_or_def split: option.splits)

lemma description_or_default [simp]:
  "description_or (case r of None \<Rightarrow> [] | Some d \<Rightarrow> d) r = (case r of None \<Rightarrow> [] | Some d \<Rightarrow> d)"
  by (simp add: description_or_def split: option.splits)

lemma opt_or_idem [simp]: "opt_or (Some (opt_or a b)) b = opt_or a b"
  by (simp add: opt_or_def split: option.splits)

lemma filter_key_unique:
  "distinct (map f xs) \<Longrightarrow> x \<in> set xs \<Longrightarrow> filter (\<lambda>y. f y = f x) xs = [x]"
proof (induction xs)
  case Nil
  then show ?case by simp
next
  case (Cons a xs)
  show ?case
  proof (cases "a = x")
    case True
    with Cons.prems have "\<forall>y \<in> set xs. f y \<noteq> f x" by (auto simp: image_iff)
    then have "filter (\<lambda>y. f y = f x) xs = []" by (simp add: filter_empty_conv)
    with True show ?thesis by simp
  next
    case False
    with Cons.prems have "x \<in> set xs" "f a \<noteq> f x" "distinct (map f xs)" by (auto simp: image_iff)
    with Cons.IH show ?thesis by simp
  qed
qed

lemma index_by_merged:
  assumes d: "distinct (map bk bqs)"
    and g: "\<And>b. b \<in> set bqs \<Longrightarrow> key (g b) = bk b"
    and e: "\<And>x. x \<in> set extra \<Longrightarrow> key x \<notin> bk ` set bqs"
    and b: "b \<in> set bqs"
  shows "index_by key (map g bqs @ extra) (bk b) = Some (g b)"
proof -
  have "filter (\<lambda>x. key x = bk b) extra = []"
    using e b by (auto simp: filter_empty_conv)
  moreover have "filter (\<lambda>x. key x = bk b) (map g bqs) = map g (filter (\<lambda>y. bk y = bk b) bqs)"
    using g by (simp add: filter_map comp_def cong: filter_cong)
  ultimately have "filter (\<lambda>x. key x = bk b) (map g bqs @ extra) = [g b]"
    using filter_key_unique [OF d b] by simp
  then show ?thesis by (simp add: index_by_last)
qed

lemma merged_col_idem:
  "m' (bq_name b) = Some (merged_col m b) \<Longrightarrow> merged_col m' b = merged_col m b"
  by (simp add: merged_col_def build_column_from_bigquery_def split: option.splits)

lemma merge_columns_idem:
  assumes d: "distinct (map bq_name bqs)"
  shows "merge_columns bqs (merge_columns bqs ys rd) rd = merge_columns bqs ys rd"
proof -
  let ?g = "merged_col (index_by col_name ys)"
  let ?extra = "if rd then [] else filter (\<lambda>y. col_name y \<notin> bq_name ` set bqs) ys"
  let ?out = "map ?g bqs @ ?extra"
  have out: "merge_columns bqs ys rd = ?out" by (rule merge_columns_eq)
  have look: "index_by col_name ?out (bq_name b) = Some (?g b)" if "b \<in> set bqs" for b
    by (rule index_by_merged [OF d _ _ that]) (auto split: if_splits)
  have m: "map (merged_col (index_by col_name ?out)) bqs = map ?g bqs"
    by (rule map_cong [OF refl]) (simp add: merged_col_idem look)
  have f1: "filter (\<lambda>y. col_name y \<notin> bq_name ` set bqs) (map ?g bqs) = []"
    by (auto simp: filter_empty_conv)
  have f2: "filter (\<lambda>y. col_name y \<notin> bq_name ` set bqs) ?extra = ?extra"
    by simp
  have "merge_columns bqs ?out rd = ?out"
    unfolding merge_columns_eq [of bqs ?out rd] m using f1 f2 by (simp del: filter_filter)
  then show ?thesis by (simp only: out)
qed

lemma merge_columns_fresh: "merge_columns bqs [] rd = map build_column_from_bigquery bqs"
  by (simp add: merge_columns_eq merged_col_def)

lemma merge_table_idem:
  assumes d: "distinct (map bq_name (bqt_columns b))"
  shows "merge_table b (Some (merge_table b yo rdc)) rdc = merge_table b yo rdc"
proof (cases yo)
  case None
  have "merge_columns (bqt_columns b) (map build_column_from_bigquery (bqt_columns b)) rdc
          = map build_column_from_bigquery (bqt_columns b)"
    using merge_columns_idem [OF d, of "[]" rdc] by (simp add: merge_columns_fresh)
  with None show ?thesis
    by (simp add: merge_table_def build_table_from_bigquery_def)
next
  case (Some yt)
  then show ?thesis
    by (simp add: merge_table_def merge_columns_idem [OF d])
qed

lemma merged_tables_idem:
  assumes u: "unique_names bqs"
  shows "merged_tables_of bqs (merged_tables_of bqs ts rdt rdc) rdt rdc = merged_tables_of bqs ts rdt rdc"
proof -
  let ?g = "\<lambda>b. merge_table b (index_by tbl_name ts (table_id b)) rdc"
  let ?extra = "if rdt then [] else filter (\<lambda>t. tbl_name t \<notin> table_id ` set bqs) ts"
  let ?out = "map ?g bqs @ ?extra"
  from u have d: "distinct (map table_id bqs)"
    and c: "\<And>b. b \<in> set bqs \<Longrightarrow> distinct (map bq_name (bqt_columns b))"
    by (auto simp: unique_names_def)
  have look: "index_by tbl_name ?out (table_id b) = Some (?g b)" if "b \<in> set bqs" for b
    by (rule index_by_merged [OF d _ _ that]) (auto split: if_splits)
  have m: "map (\<lambda>b. merge_table b (index_by tbl_name ?out (table_id b)) rdc) bqs = map ?g bqs"
    by (rule map_cong [OF refl]) (simp add: look merge_table_idem c)
  have f1: "filter (\<lambda>t. tbl_name t \<notin> table_id ` set bqs) (map ?g bqs) = []"
    by (auto simp: filter_empty_conv)
  have f2: "filter (\<lambda>t. tbl_name t \<notin> table_id ` set bqs) ?extra = ?extra"
    by simp
  have "merged_tables_of bqs ?out rdt rdc = ?out"
    unfolding merged_tables_of_def [of bqs ?out] m using f1 f2 by (simp del: filter_filter)
  then show ?thesis by (simp only: merged_tables_of_def)
qed

lemma merge_sources_eq:
  "merge_sources bqs yo sn pid did rdt rdc =
     \<lparr> src_name = (case yo of None \<Rightarrow> sn | Some s \<Rightarrow> src_name s),
       database = Some (opt_or (case yo of None \<Rightarrow> Some pid | Some s \<Rightarrow> database s) pid),
       schema_name = Some (opt_or (case yo of None \<Rightarrow> Some did | Some s \<Rightarrow> schema_name s) did),
       src_description = (case yo of None \<Rightarrow> [] | Some s \<Rightarrow> src_description s),
       src_tables = merged_tables_of bqs (existing_tables yo) rdt rdc,
       src_meta = (case yo of None \<Rightarrow> None | Some s \<Rightarrow> src_meta s) \<rparr>"
  by (cases yo) (simp_all add: merge_sources_def Let_def update_tables_eq keep_yaml_tables_eq
      index_by_eq_None existing_tables_def merged_tables_of_def)

lemma merge_sources_idem:
  assumes u: "unique_names bqs"
  shows "merge_sources bqs (Some (merge_sources bqs yo sn pid did rdt rdc)) sn pid did rdt rdc
           = merge_sources bqs yo sn pid did rdt rdc"
  by (simp add: merge_sources_eq existing_tables_def merged_tables_idem [OF u])

lemma merge_sources_matches:
  assumes "yo = None \<or> (\<exists>s. yo = Some s \<and> source_matches sn did s)"
  shows "source_matches sn did (merge_sources bqs yo sn pid did rdt rdc)"
  using assms by (auto simp: merge_sources_eq source_matches_def opt_or_def)

lemma last_filter_matches:
  "filter P xs = m # ms \<Longrightarrow> P (last (m # ms))"
proof -
  assume a: "filter P xs = m # ms"
  have "last (m # ms) \<in> set (m # ms)" by (rule last_in_set) simp
  with a have "last (m # ms) \<in> set (filter P xs)" by simp
  then show ?thesis by simp
qed



section \<open>Lookups in the dictionaries\<close>

lemma index_by_member:
  assumes "k \<in> key ` set xs"
  shows "index_by key xs k = Some (last (filter (\<lambda>x. key x = k) xs))"
    and "last (filter (\<lambda>x. key x = k) xs) \<in> set xs"
    and "key (last (filter (\<lambda>x. key x = k) xs)) = k"
proof -
  from assms have ne: "filter (\<lambda>x. key x = k) xs \<noteq> []"
    by (auto simp: filter_empty_conv)
  then show "index_by key xs k = Some (last (filter (\<lambda>x. key x = k) xs))"
    by (simp add: index_by_last split: list.splits)
  from ne have "last (filter (\<lambda>x. key x = k) xs) \<in> set (filter (\<lambda>x. key x = k) xs)"
    by (rule last_in_set)
  then show "last (filter (\<lambda>x. key x = k) xs) \<in> set xs"
    and "key (last (filter (\<lambda>x. key x = k) xs)) = k"
    by simp_all
qed

lemma description_or_eq:
  "description_or d r = (if d \<noteq> [] then d else (case r of Some s \<Rightarrow> s | None \<Rightarrow> []))"
  by (simp add: description_or_def split: option.splits)

lemma merge_columns_nth:
  "i < length bqs \<Longrightarrow>
     merge_columns bqs ys rd ! i = merged_col (index_by col_name ys) (bqs ! i)"
  by (simp add: merge_columns_eq nth_append)

lemma merge_sources_nth:
  "i < length bqs \<Longrightarrow>
     src_tables (merge_sources bqs yo sn pid did rdt rdc) ! i =
       merge_table (bqs ! i) (index_by tbl_name (existing_tables yo) (table_id (bqs ! i))) rdc"
  by (simp add: merge_sources_tables nth_append)

section \<open>Serializing and parsing\<close>

lemma and_then_Inr [simp]: "and_then (Inr v) f = f v"
  by (simp add: and_then_def)

lemma and_then_Inl [simp]: "and_then (Inl e) f = Inl e"
  by (simp add: and_then_def)

lemma traverse_map:
  "(\<And>x. x \<in> set xs \<Longrightarrow> f (g x) = Inr (h x)) \<Longrightarrow> traverse f (map g xs) = Inr (map h xs)"
  by (induction xs) simp_all

lemma map_of_put_str:
  "map_of (put_str key x) k =
     (case x of None \<Rightarrow> None | Some s \<Rightarrow> (if s \<noteq> [] \<and> k = key then Some (YStr s) else None))"
  by (simp add: put_str_def split: option.splits)

lemma map_of_put_meta:
  "map_of (put_meta key x) k =
     (case x of None \<Rightarrow> None | Some s \<Rightarrow> (if s \<noteq> [] \<and> k = key then Some (YMap s) else None))"
  by (simp add: put_meta_def split: option.splits)

lemma map_of_put_tests:
  "map_of (put_tests key x) k =
     (case x of None \<Rightarrow> None | Some s \<Rightarrow> (if s \<noteq> [] \<and> k = key then Some (YSeq s) else None))"
  by (simp add: put_tests_def split: option.splits)

lemmas map_of_put = map_of_put_str map_of_put_meta map_of_put_tests

lemma as_opt_str_put:
  "as_opt_str (case x of None \<Rightarrow> None | Some s \<Rightarrow> (if s \<noteq> [] then Some (YStr s) else None))
     = Inr (unset_if_empty x)"
  by (simp add: unset_if_empty_def split: option.splits)

lemma as_description_put:
  "as_description (if s \<noteq> [] then Some (YStr s) else None) = Inr s"
  by simp

lemma as_meta_put:
  "as_meta (case x of None \<Rightarrow> None | Some s \<Rightarrow> (if s \<noteq> [] then Some (YMap s) else None))
     = Inr (unset_if_empty x)"
  by (simp add: unset_if_empty_def split: option.splits)

lemma as_tests_put:
  "as_tests (case x of None \<Rightarrow> None | Some s \<Rightarrow> (if s \<noteq> [] then Some (YSeq s) else None))
     = Inr (unset_if_empty x)"
  by (simp add: unset_if_empty_def split: option.splits)

lemmas as_put = as_opt_str_put as_description_put as_meta_put as_tests_put

lemma column_get:
  "map_of (column_data c) ''name'' = Some (YStr (col_name c))"
  "map_of (column_data c) ''data_type'' =
     (case data_type c of None \<Rightarrow> None | Some s \<Rightarrow> (if s \<noteq> [] then Some (YStr s) else None))"
  "map_of (column_data c) ''description'' =
     (if col_description c \<noteq> [] then Some (YStr (col_description c)) else None)"
  "map_of (column_data c) ''meta'' =
     (case col_meta c of None \<Rightarrow> None | Some s \<Rightarrow> (if s \<noteq> [] then Some (YMap s) else None))"
  "map_of (column_data c) ''tests'' =
     (case col_tests c of None \<Rightarrow> None | Some s \<Rightarrow> (if s \<noteq> [] then Some (YSeq s) else None))"
  by (simp_all add: column_data_def map_of_put map_add_def split: option.splits)

lemma parse_column_serialized:
  "parse_column (YMap (column_data c)) = Inr (normalize_column c)"
  by (simp add: parse_column_def column_get as_put normalize_column_def)


lemma table_get:
  "map_of (table_data t) ''name'' = Some (YStr (tbl_name t))"
  "map_of (table_data t) ''identifier'' =
     (case tbl_identifier t of None \<Rightarrow> None | Some s \<Rightarrow> (if s \<noteq> [] then Some (YStr s) else None))"
  "map_of (table_data t) ''description'' =
     (if tbl_description t \<noteq> [] then Some (YStr (tbl_description t)) else None)"
  "map_of (table_data t) ''meta'' =
     (case tbl_meta t of None \<Rightarrow> None | Some s \<Rightarrow> (if s \<noteq> [] then Some (YMap s) else None))"
  "map_of (table_data t) ''tests'' =
     (case tbl_tests t of None \<Rightarrow> None | Some s \<Rightarrow> (if s \<noteq> [] then Some (YSeq s) else None))"
  "map_of (table_data t) ''columns'' =
     (if tbl_columns t \<noteq> []
      then Some (YSeq (map (\<lambda>column. YMap (column_data column)) (tbl_columns t)))
      else None)"
  by (simp_all add: table_data_def map_of_put map_add_def split: option.splits)

lemma parse_table_serialized:
  "parse_table (YMap (table_data t)) = Inr (normalize_table t)"
proof -
  have "traverse parse_column (map (\<lambda>column. YMap (column_data column)) (tbl_columns t))
          = Inr (map normalize_column (tbl_columns t))"
    by (rule traverse_map) (rule parse_column_serialized)
  then show ?thesis
    by (simp add: parse_table_def table_get as_put normalize_table_def)
qed

lemma source_get:
  "map_of (source_data s) ''name'' = Some (YStr (src_name s))"
  "map_of (source_data s) ''database'' =
     (case database s of None \<Rightarrow> None | Some s \<Rightarrow> (if s \<noteq> [] then Some (YStr s) else None))"
  "map_of (source_data s) ''schema'' =
     (case schema_name s of None \<Rightarrow> None | Some s \<Rightarrow> (if s \<noteq> [] then Some (YStr s) else None))"
  "map_of (source_data s) ''description'' =
     (if src_description s \<noteq> [] then Some (YStr (src_description s)) else None)"
  "map_of (source_data s) ''meta'' =
     (case src_meta s of None \<Rightarrow> None | Some s \<Rightarrow> (if s \<noteq> [] then Some (YMap s) else None))"
  "map_of (source_data s) ''tables'' =
     Some (YSeq (map (\<lambda>table. YMap (table_data table)) (src_tables s)))"
  by (simp_all add: source_data_def map_of_put map_add_def split: option.splits)

lemma parse_source_serialized:
  "parse_source (YMap (source_data s)) = Inr (normalize_source s)"
proof -
  have "traverse parse_table (map (\<lambda>table. YMap (table_data table)) (src_tables s))
          = Inr (map normalize_table (src_tables s))"
    by (rule traverse_map) (rule parse_table_serialized)
  then show ?thesis
    by (simp add: parse_source_def source_get as_put normalize_source_def)
qed

lemma parse_serialized:
  "parse_source_file (serialize_source_file f) = Inr (normalize_source_file f)"
proof -
  have "traverse parse_source (map (\<lambda>source. YMap (source_data source)) (sources f))
          = Inr (map normalize_source (sources f))"
    by (rule traverse_map) (rule parse_source_serialized)
  then show ?thesis
    by (simp add: parse_source_file_def serialize_source_file_def normalize_source_file_def)
qed

lemma unset_if_empty_id: "unset_if_empty x = x \<longleftrightarrow> unset_or_nonempty x"
  by (auto simp: unset_if_empty_def unset_or_nonempty_def)

lemma map_id_iff: "map f xs = xs \<longleftrightarrow> list_all (\<lambda>x. f x = x) xs"
  by (induction xs) simp_all

lemma normalize_column_id: "normalize_column c = c \<longleftrightarrow> column_in_domain c"
proof -
  have "c = \<lparr> col_name = col_name c, data_type = data_type c,
              col_description = col_description c, col_meta = col_meta c,
              col_tests = col_tests c \<rparr>"
    by simp
  then have "normalize_column c = c \<longleftrightarrow>
      unset_if_empty (data_type c) = data_type c \<and> unset_if_empty (col_meta c) = col_meta c \<and>
      unset_if_empty (col_tests c) = col_tests c"
    unfolding normalize_column_def by (metis DbtColumn.ext_inject)
  then show ?thesis by (simp add: column_in_domain_def unset_if_empty_id)
qed

lemma normalize_table_id: "normalize_table t = t \<longleftrightarrow> table_in_domain t"
proof -
  have "t = \<lparr> tbl_name = tbl_name t, tbl_identifier = tbl_identifier t,
              tbl_description = tbl_description t, tbl_columns = tbl_columns t,
              tbl_meta = tbl_meta t, tbl_tests = tbl_tests t \<rparr>"
    by simp
  then have "normalize_table t = t \<longleftrightarrow>
      unset_if_empty (tbl_identifier t) = tbl_identifier t \<and>
      map normalize_column (tbl_columns t) = tbl_columns t \<and>
      unset_if_empty (tbl_meta t) = tbl_meta t \<and> unset_if_empty (tbl_tests t) = tbl_tests t"
    unfolding normalize_table_def by (metis DbtTable.ext_inject)
  then show ?thesis
    by (auto simp: table_in_domain_def unset_if_empty_id map_id_iff normalize_column_id)
qed

lemma normalize_source_id: "normalize_source s = s \<longleftrightarrow> source_in_domain s"
proof -
  have "s = \<lparr> src_name = src_name s, database = database s, schema_name = schema_name s,
              src_description = src_description s, src_tables = src_tables s,
              src_meta = src_meta s \<rparr>"
    by simp
  then have "normalize_source s = s \<longleftrightarrow>
      unset_if_empty (database s) = database s \<and>
      unset_if_empty (schema_name s) = schema_name s \<and>
      map normalize_table (src_tables s) = src_tables s \<and>
      unset_if_empty (src_meta s) = src_meta s"
    unfolding normalize_source_def by (metis DbtSource.ext_inject)
  then show ?thesis
    by (auto simp: source_in_domain_def unset_if_empty_id map_id_iff normalize_table_id)
qed

lemma normalize_source_file_id: "normalize_source_file f = f \<longleftrightarrow> file_in_domain f"
proof -
  have "f = \<lparr> version = version f, sources = sources f \<rparr>"
    by simp
  then have "normalize_source_file f = f \<longleftrightarrow> map normalize_source (sources f) = sources f"
    unfolding normalize_source_file_def by (metis DbtSourceFile.ext_inject)
  then show ?thesis
    by (simp add: file_in_domain_def map_id_iff normalize_source_id)
qed

lemma keys_put_str: "map fst (put_str key x) = (if present x then [key] else [])"
  by (simp add: put_str_def present_def split: option.splits)

lemma keys_put_meta: "map fst (put_meta key x) = (if present x then [key] else [])"
  by (simp add: put_meta_def present_def split: option.splits)

lemma keys_put_tests: "map fst (put_tests key x) = (if present x then [key] else [])"
  by (simp add: put_tests_def present_def split: option.splits)

lemma present_description: "present (Some s) \<longleftrightarrow> s \<noteq> []"
  by (simp add: present_def)

lemma column_keys:
  "map fst (column_data c) =
     ''name'' # (if present (data_type c) then [''data_type''] else [])
     @ (if col_description c \<noteq> [] then [''description''] else [])
     @ (if present (col_meta c) then [''meta''] else [])
     @ (if present (col_tests c) then [''tests''] else [])"
  by (simp add: column_data_def keys_put_str keys_put_meta keys_put_tests present_description)

lemma table_keys:
  "map fst (table_data t) =
     ''name'' # (if present (tbl_identifier t) then [''identifier''] else [])
     @ (if tbl_description t \<noteq> [] then [''description''] else [])
     @ (if present (tbl_meta t) then [''meta''] else [])
     @ (if present (tbl_tests t) then [''tests''] else [])
     @ (if tbl_columns t \<noteq> [] then [''columns''] else [])"
  by (simp add: table_data_def keys_put_str keys_put_meta keys_put_tests present_description)

lemma source_keys:
  "map fst (source_data s) =
     ''name'' # (if present (database s) then [''database''] else [])
     @ (if present (schema_name s) then [''schema''] else [])
     @ (if src_description s \<noteq> [] then [''description''] else [])
     @ (if present (src_meta s) then [''meta''] else [])
     @ [''tables'']"
  by (simp add: source_data_def keys_put_str keys_put_meta keys_put_tests present_description)

lemma put_values:
  "list_all (\<lambda>(k, v). truthy v) (put_str key x)"
  "list_all (\<lambda>(k, v). truthy v) (put_meta key y)"
  "list_all (\<lambda>(k, v). truthy v) (put_tests key z)"
  by (simp_all add: put_str_def put_meta_def put_tests_def split: option.splits)

lemma column_values:
  "list_all (\<lambda>(k, v). v \<noteq> YNull \<and> (k \<noteq> ''name'' \<longrightarrow> truthy v)) (column_data c)"
  using put_values(1) [of "''data_type''" "data_type c"]
    put_values(1) [of "''description''" "Some (col_description c)"]
    put_values(2) [of "''meta''" "col_meta c"] put_values(3) [of "''tests''" "col_tests c"]
  by (auto simp: column_data_def list_all_iff)

lemma table_values:
  "list_all (\<lambda>(k, v). v \<noteq> YNull \<and> (k \<noteq> ''name'' \<longrightarrow> truthy v)) (table_data t)"
  using put_values(1) [of "''identifier''" "tbl_identifier t"]
    put_values(1) [of "''description''" "Some (tbl_description t)"]
    put_values(2) [of "''meta''" "tbl_meta t"] put_values(3) [of "''tests''" "tbl_tests t"]
  by (auto simp: table_data_def list_all_iff)

lemma source_values:
  "list_all (\<lambda>(k, v). v \<noteq> YNull \<and> (k \<noteq> ''name'' \<and> k \<noteq> ''tables'' \<longrightarrow> truthy v)) (source_data s)"
  using put_values(1) [of "''database''" "database s"] put_values(1) [of "''schema''" "schema_name s"]
    put_values(1) [of "''description''" "Some (src_description s)"]
    put_values(2) [of "''meta''" "src_meta s"]
  by (auto simp: source_data_def list_all_iff)

section \<open>The claims about reconciliation\<close>

text \<open>
  Claim C1: when several sources of the existing document match the target, the first match
  in iteration order is the merge input and every other source, later matches included, is in
  the output unchanged.

  The loop of \<open>merge_source_file\<close> assigns every match to \<open>yaml_source\<close> and appends only the
  sources that do not match to \<open>other_sources\<close>.  On a document whose sources \<open>a\<close> and \<open>b\<close> both
  have the schema \<open>ds\<close>, reconciled for the source name \<open>a\<close> (the name that the loop of \<open>apply\<close>
  in \<open>cli.py\<close> picks, which stops at the first match), the merge input is the last match \<open>b\<close>,
  and the source \<open>a\<close> with its table is not in the output at all.
\<close>

theorem merge_source_file_two_matches:
  "merge_source_file ex_snapshot (Some ex_two_matches) ''a'' ''p'' ''ds'' False False =
     \<lparr> version = 2,
       sources =
         [\<lparr> src_name = ''b'', database = Some ''p'', schema_name = Some ''ds'',
            src_description = ''second'',
            src_tables = map build_table_from_bigquery ex_snapshot,
            src_meta = None \<rparr>] \<rparr>"
  by (simp add: ex_defs ex_two_matches_def merge_defs)

text \<open>
  Claim C2 (idempotence): for every snapshot, every optional prior document and all flag
  values, applying \<open>merge_source_file\<close> with the same snapshot, source name, project id,
  dataset id and flags to the document it produced yields that document again.  A snapshot
  is a list of remote tables with the invariants of the data model (spec, section 3): table
  ids are unique within the snapshot and column names are unique within each remote table,
  which is \<open>unique_names\<close>.  The prior document is arbitrary: its names need not be unique
  and it may hold several sources that match the target.
\<close>

theorem merge_source_file_idempotent:
  assumes u: "unique_names bq_tables"
  shows "merge_source_file bq_tables
           (Some (merge_source_file bq_tables yaml_file source_name project_id dataset_id
                    remove_deleted_tables remove_deleted_columns))
           source_name project_id dataset_id remove_deleted_tables remove_deleted_columns
         = merge_source_file bq_tables yaml_file source_name project_id dataset_id
             remove_deleted_tables remove_deleted_columns"
proof -
  define srcs where "srcs = (case yaml_file of None \<Rightarrow> [] | Some f \<Rightarrow> sources f)"
  define sel where "sel = (case filter (source_matches source_name dataset_id) srcs of [] \<Rightarrow> None | m # ms \<Rightarrow> Some (last (m # ms)))"
  define others where "others = filter (\<lambda>s. \<not> source_matches source_name dataset_id s) srcs"
  define M where "M = merge_sources bq_tables sel source_name project_id dataset_id remove_deleted_tables remove_deleted_columns"
  have first: "merge_source_file bq_tables yaml_file source_name project_id dataset_id remove_deleted_tables remove_deleted_columns =
      \<lparr> version = (case yaml_file of None \<Rightarrow> 2 | Some f \<Rightarrow> version f), sources = others @ [M] \<rparr>"
    by (simp add: merge_source_file_eq Let_def srcs_def sel_def others_def M_def)
  have "sel = None \<or> (\<exists>s. sel = Some s \<and> source_matches source_name dataset_id s)"
    unfolding sel_def by (auto split: list.splits dest: last_filter_matches simp del: last.simps)
  then have mm: "source_matches source_name dataset_id M"
    unfolding M_def by (rule merge_sources_matches)
  have fo: "filter (\<lambda>s. \<not> source_matches source_name dataset_id s) (others @ [M]) = others"
    using mm by (simp add: others_def)
  have fm: "filter (source_matches source_name dataset_id) (others @ [M]) = [M]"
    using mm by (simp add: others_def)
  have "merge_sources bq_tables (Some M) source_name project_id dataset_id remove_deleted_tables remove_deleted_columns = M"
    unfolding M_def by (rule merge_sources_idem [OF u])
  then show ?thesis
    unfolding first by (simp add: merge_source_file_eq Let_def fo fm del: filter_append)
qed

theorem merge_source_file_idempotent_witness:
  "unique_names ex_snapshot \<and>
   merge_source_file ex_snapshot
       (Some (merge_source_file ex_snapshot (Some ex_file) ''raw'' ''p'' ''ds'' False True))
       ''raw'' ''p'' ''ds'' False True
     = merge_source_file ex_snapshot (Some ex_file) ''raw'' ''p'' ''ds'' False True"
proof -
  have u: "unique_names ex_snapshot"
    by (simp add: unique_names_def ex_snapshot_def)
  from u merge_source_file_idempotent [OF u] show ?thesis by simp
qed

text \<open>
  Claim C3: in \<open>merge_columns\<close>, for every remote column whose name is the name of an existing
  document column, the emitted column (at the position of the remote column) has the name and
  the data type of the remote column, the description of the existing column if that is not
  empty, else the remote description if there is one, else the empty string, and the meta and
  tests of the existing column.  The existing column is the one the dictionary holds for that
  name: the last column of the document with that name, which is the only one when names are
  unique.
\<close>

theorem merge_columns_matched:
  assumes "i < length bq_columns"
    and "bq_name (bq_columns ! i) \<in> col_name ` set yaml_columns"
  shows "let bq_col = bq_columns ! i;
             yaml_col = last (filter (\<lambda>c. col_name c = bq_name bq_col) yaml_columns)
         in yaml_col \<in> set yaml_columns \<and> col_name yaml_col = bq_name bq_col \<and>
            merge_columns bq_columns yaml_columns remove_deleted ! i =
              \<lparr> col_name = bq_name bq_col,
                data_type = Some (field_type bq_col),
                col_description =
                  (if col_description yaml_col \<noteq> [] then col_description yaml_col
                   else (case bq_description bq_col of Some d \<Rightarrow> d | None \<Rightarrow> [])),
                col_meta = col_meta yaml_col,
                col_tests = col_tests yaml_col \<rparr>"
  using assms index_by_member [OF assms(2)]
  by (simp add: Let_def merge_columns_nth merged_col_def description_or_eq)

theorem merge_columns_matched_witness:
  "(0::nat) < length (bqt_columns (hd ex_snapshot)) \<and>
   bq_name (bqt_columns (hd ex_snapshot) ! 0) \<in> col_name ` set [ex_col_old, ex_col_id] \<and>
   merge_columns (bqt_columns (hd ex_snapshot)) [ex_col_old, ex_col_id] True ! 0 =
     \<lparr> col_name = ''id'', data_type = Some ''INT64'', col_description = ''Primary key'',
       col_meta = Some [(''pii'', YBool False)], col_tests = Some [YStr ''unique''] \<rparr>"
  using merge_columns_matched [of 0 "bqt_columns (hd ex_snapshot)" "[ex_col_old, ex_col_id]" True]
  by (simp add: ex_defs)

text \<open>
  Claim C4: the output of \<open>merge_columns\<close>, and the table list of \<open>merge_sources\<close>, starts with
  one entry for each remote entry, in the order of the snapshot and under the remote name.
  What follows is, when the prune flag is false, exactly the document entries whose name is
  not a remote name, in their original order and unchanged; when the prune flag is true,
  nothing follows.
\<close>

theorem merge_order:
  "map col_name (take (length bq_columns) (merge_columns bq_columns yaml_columns remove_deleted))
     = map bq_name bq_columns
   \<and> drop (length bq_columns) (merge_columns bq_columns yaml_columns remove_deleted)
     = (if remove_deleted then []
        else filter (\<lambda>c. col_name c \<notin> bq_name ` set bq_columns) yaml_columns)
   \<and> map tbl_name (take (length bq_tables)
        (src_tables (merge_sources bq_tables yaml_source source_name project_id dataset_id
           remove_deleted_tables remove_deleted_columns)))
     = map table_id bq_tables
   \<and> drop (length bq_tables)
        (src_tables (merge_sources bq_tables yaml_source source_name project_id dataset_id
           remove_deleted_tables remove_deleted_columns))
     = (if remove_deleted_tables then []
        else filter (\<lambda>t. tbl_name t \<notin> table_id ` set bq_tables) (existing_tables yaml_source))"
proof -
  let ?cols = "merge_columns bq_columns yaml_columns remove_deleted"
  let ?tabs = "src_tables (merge_sources bq_tables yaml_source source_name project_id dataset_id
                 remove_deleted_tables remove_deleted_columns)"
  have c1: "map col_name (take (length bq_columns) ?cols) = map bq_name bq_columns"
    by (simp add: merge_columns_eq comp_def)
  have c2: "drop (length bq_columns) ?cols
      = (if remove_deleted then []
         else filter (\<lambda>c. col_name c \<notin> bq_name ` set bq_columns) yaml_columns)"
    by (simp add: merge_columns_eq)
  have t1: "map tbl_name (take (length bq_tables) ?tabs) = map table_id bq_tables"
    by (simp add: merge_sources_tables comp_def)
  have t2: "drop (length bq_tables) ?tabs
      = (if remove_deleted_tables then []
         else filter (\<lambda>t. tbl_name t \<notin> table_id ` set bq_tables) (existing_tables yaml_source))"
    by (simp add: merge_sources_tables)
  from c1 c2 t1 t2 show ?thesis
    by (intro conjI)
qed

theorem merge_order_witness:
  "drop 2 (merge_columns (bqt_columns (hd ex_snapshot)) [ex_col_old, ex_col_id] False) = [ex_col_old]
   \<and> drop 2 (merge_columns (bqt_columns (hd ex_snapshot)) [ex_col_old, ex_col_id] True) = []
   \<and> map tbl_name (src_tables (merge_sources ex_snapshot (Some ex_source) ''raw'' ''p'' ''ds'' False False))
        = [''t1'', ''t2'']
   \<and> drop 1 (src_tables (merge_sources ex_snapshot (Some ex_source) ''raw'' ''p'' ''ds'' False False))
        = [ex_table_t2]
   \<and> drop 1 (src_tables (merge_sources ex_snapshot (Some ex_source) ''raw'' ''p'' ''ds'' True False))
        = []"
  using merge_order [of "bqt_columns (hd ex_snapshot)" "[ex_col_old, ex_col_id]" False
      ex_snapshot "Some ex_source" "''raw''" "''p''" "''ds''" False False]
    merge_order [of "bqt_columns (hd ex_snapshot)" "[ex_col_old, ex_col_id]" True
      ex_snapshot "Some ex_source" "''raw''" "''p''" "''ds''" True False]
  by (simp add: ex_defs merge_defs existing_tables_def)

text \<open>
  Claim C5: for an existing document table, \<open>merge_table\<close> keeps the description of the
  document when it is not empty (else the remote description, else the empty string) and
  copies meta and tests; \<open>merge_sources\<close> copies the description and the meta of the existing
  source; and the table that \<open>merge_sources\<close> emits for a remote table whose id is the name of a
  document table is \<open>merge_table\<close> of that document table, so its description, meta and tests
  are kept in the same way.
\<close>

theorem merge_preserves_annotations:
  "tbl_description (merge_table bq_table (Some yaml_table) remove_deleted_columns)
     = (if tbl_description yaml_table \<noteq> [] then tbl_description yaml_table
        else (case bqt_description bq_table of Some d \<Rightarrow> d | None \<Rightarrow> []))
   \<and> tbl_meta (merge_table bq_table (Some yaml_table) remove_deleted_columns) = tbl_meta yaml_table
   \<and> tbl_tests (merge_table bq_table (Some yaml_table) remove_deleted_columns) = tbl_tests yaml_table
   \<and> src_description (merge_sources bq_tables (Some yaml_source) source_name project_id dataset_id
        remove_deleted_tables remove_deleted_columns) = src_description yaml_source
   \<and> src_meta (merge_sources bq_tables (Some yaml_source) source_name project_id dataset_id
        remove_deleted_tables remove_deleted_columns) = src_meta yaml_source
   \<and> (\<forall>i < length bq_tables.
        table_id (bq_tables ! i) \<in> tbl_name ` set (src_tables yaml_source) \<longrightarrow>
        src_tables (merge_sources bq_tables (Some yaml_source) source_name project_id dataset_id
            remove_deleted_tables remove_deleted_columns) ! i
          = merge_table (bq_tables ! i)
              (Some (last (filter (\<lambda>t. tbl_name t = table_id (bq_tables ! i))
                             (src_tables yaml_source))))
              remove_deleted_columns)"
  by (simp add: merge_table_def description_or_eq merge_sources_eq merged_tables_of_def
      nth_append existing_tables_def index_by_member(1))

theorem merge_preserves_annotations_witness:
  "(let t = src_tables (merge_sources ex_snapshot (Some ex_source) ''raw'' ''p'' ''ds'' True True) ! 0
    in tbl_description t = ''Orders'' \<and> tbl_meta t = Some [(''owner'', YStr ''sales'')]
       \<and> tbl_tests t = Some [YStr ''fresh''])
   \<and> src_description (merge_sources ex_snapshot (Some ex_source) ''raw'' ''p'' ''ds'' True True)
       = ''Raw data''
   \<and> src_meta (merge_sources ex_snapshot (Some ex_source) ''raw'' ''p'' ''ds'' True True)
       = Some [(''team'', YStr ''data'')]"
  using merge_preserves_annotations [of "hd ex_snapshot" ex_table_t1 True ex_snapshot ex_source
      "''raw''" "''p''" "''ds''" True]
  by (simp add: ex_defs)

text \<open>
  Claim C6: \<open>merge_sources\<close> matches a remote table with the document table whose name is the
  remote id; the identifier plays no part.  When a document table has that name, the merged
  table has the name and the identifier of the document table; when no document table has
  that name (whatever the identifiers are), the emitted table is built from the remote table
  alone.
\<close>

theorem table_matching_by_name:
  assumes "i < length bq_tables"
  shows "(table_id (bq_tables ! i) \<in> tbl_name ` set (src_tables yaml_source) \<longrightarrow>
            (let yaml_table = last (filter (\<lambda>t. tbl_name t = table_id (bq_tables ! i))
                                      (src_tables yaml_source));
                 merged_table = src_tables (merge_sources bq_tables (Some yaml_source) source_name
                                  project_id dataset_id remove_deleted_tables remove_deleted_columns) ! i
             in yaml_table \<in> set (src_tables yaml_source) \<and>
                tbl_name merged_table = tbl_name yaml_table \<and>
                tbl_identifier merged_table = tbl_identifier yaml_table))
       \<and> (table_id (bq_tables ! i) \<notin> tbl_name ` set (src_tables yaml_source) \<longrightarrow>
            src_tables (merge_sources bq_tables (Some yaml_source) source_name
                project_id dataset_id remove_deleted_tables remove_deleted_columns) ! i
              = build_table_from_bigquery (bq_tables ! i))"
proof (cases "table_id (bq_tables ! i) \<in> tbl_name ` set (src_tables yaml_source)")
  case True
  from index_by_member [OF True] True assms show ?thesis
    by (simp add: Let_def merge_sources_nth existing_tables_def merge_table_def)
next
  case False
  then have "index_by tbl_name (src_tables yaml_source) (table_id (bq_tables ! i)) = None"
    by (simp add: index_by_eq_None)
  with False assms show ?thesis
    by (simp add: merge_sources_nth existing_tables_def merge_table_def)
qed

theorem table_matching_by_name_witness:
  "(0::nat) < length ex_snapshot \<and>
   table_id (ex_snapshot ! 0) \<in> tbl_name ` set (src_tables ex_source) \<and>
   (let merged_table = src_tables (merge_sources ex_snapshot (Some ex_source) ''raw'' ''p'' ''ds''
                         False False) ! 0
    in tbl_name merged_table = ''t1'' \<and> tbl_identifier merged_table = Some ''legacy_t1'')
   \<and> table_id (ex_snapshot ! 0) \<notin> tbl_name ` set (src_tables ex_alias_source)
   \<and> src_tables (merge_sources ex_snapshot (Some ex_alias_source) ''raw'' ''p'' ''ds''
         False False)
       = [build_table_from_bigquery (ex_snapshot ! 0), ex_table_alias]"
proof -
  have len: "(0::nat) < length ex_snapshot"
    by (simp add: ex_snapshot_def)
  have named: "table_id (ex_snapshot ! 0) \<in> tbl_name ` set (src_tables ex_source)"
    by (simp add: ex_defs)
  have other: "table_id (ex_snapshot ! 0) \<notin> tbl_name ` set (src_tables ex_alias_source)"
    by (simp add: ex_defs ex_alias_source_def ex_table_alias_def)
  from table_matching_by_name [OF len, of ex_source "''raw''" "''p''" "''ds''" False False] named
  have matched: "let merged_table = src_tables (merge_sources ex_snapshot (Some ex_source)
                    ''raw'' ''p'' ''ds'' False False) ! 0
      in tbl_name merged_table = ''t1'' \<and> tbl_identifier merged_table = Some ''legacy_t1''"
    by (simp add: ex_defs)
  from table_matching_by_name [OF len, of ex_alias_source "''raw''" "''p''" "''ds''" False False]
    other
  have "src_tables (merge_sources ex_snapshot (Some ex_alias_source) ''raw'' ''p'' ''ds''
          False False) ! 0 = build_table_from_bigquery (ex_snapshot ! 0)"
    by simp
  moreover have "drop 1 (src_tables (merge_sources ex_snapshot (Some ex_alias_source)
          ''raw'' ''p'' ''ds'' False False)) = [ex_table_alias]"
    by (simp add: merge_sources_tables existing_tables_def ex_snapshot_def ex_alias_source_def
        ex_table_alias_def)
  moreover have "length (src_tables (merge_sources ex_snapshot (Some ex_alias_source)
          ''raw'' ''p'' ''ds'' False False)) = 2"
    by (simp add: merge_sources_tables existing_tables_def ex_snapshot_def ex_alias_source_def
        ex_table_alias_def)
  ultimately have fresh: "src_tables (merge_sources ex_snapshot (Some ex_alias_source)
          ''raw'' ''p'' ''ds'' False False)
        = [build_table_from_bigquery (ex_snapshot ! 0), ex_table_alias]"
    by (auto simp: list_eq_iff_nth_eq less_Suc_eq numeral_2_eq_2)
  from len named matched other fresh show ?thesis
    by (intro conjI)
qed

text \<open>
  Claim C7: the sources of the output of \<open>merge_source_file\<close> are the sources of the existing
  document that do not match the target (the name differs from the source name and the schema
  differs from the dataset id), unchanged and in their original order, followed by the one
  merged source; the version is the version of the existing document, and 2 when there is no
  document.
\<close>

theorem merge_source_file_frame:
  "sources (merge_source_file bq_tables (Some yaml_file) source_name project_id dataset_id
       remove_deleted_tables remove_deleted_columns)
     = filter (\<lambda>s. \<not> source_matches source_name dataset_id s) (sources yaml_file) @
       [merge_sources bq_tables
          (case filter (source_matches source_name dataset_id) (sources yaml_file) of
             [] \<Rightarrow> None
           | m # ms \<Rightarrow> Some (last (m # ms)))
          source_name project_id dataset_id remove_deleted_tables remove_deleted_columns]
   \<and> version (merge_source_file bq_tables (Some yaml_file) source_name project_id dataset_id
       remove_deleted_tables remove_deleted_columns) = version yaml_file
   \<and> sources (merge_source_file bq_tables None source_name project_id dataset_id
       remove_deleted_tables remove_deleted_columns)
     = [merge_sources bq_tables None source_name project_id dataset_id
          remove_deleted_tables remove_deleted_columns]
   \<and> version (merge_source_file bq_tables None source_name project_id dataset_id
       remove_deleted_tables remove_deleted_columns) = 2"
proof -
  have loop: "find_source source_name dataset_id (sources yaml_file) (None, []) =
      ((case filter (source_matches source_name dataset_id) (sources yaml_file) of
          [] \<Rightarrow> None
        | m # ms \<Rightarrow> Some (last (m # ms))),
       filter (\<lambda>s. \<not> source_matches source_name dataset_id s) (sources yaml_file))"
    by (simp add: find_source_eq split: list.splits)
  have existing: "merge_source_file bq_tables (Some yaml_file) source_name project_id dataset_id
        remove_deleted_tables remove_deleted_columns
      = \<lparr> version = version yaml_file,
          sources = filter (\<lambda>s. \<not> source_matches source_name dataset_id s) (sources yaml_file) @
            [merge_sources bq_tables
               (case filter (source_matches source_name dataset_id) (sources yaml_file) of
                  [] \<Rightarrow> None
                | m # ms \<Rightarrow> Some (last (m # ms)))
               source_name project_id dataset_id remove_deleted_tables remove_deleted_columns] \<rparr>"
    unfolding merge_source_file_def by (simp add: loop Let_def)
  have absent: "merge_source_file bq_tables None source_name project_id dataset_id
        remove_deleted_tables remove_deleted_columns
      = \<lparr> version = 2,
          sources = [merge_sources bq_tables None source_name project_id dataset_id
                       remove_deleted_tables remove_deleted_columns] \<rparr>"
    by (simp add: merge_source_file_def)
  show ?thesis
    by (simp add: existing absent)
qed

theorem merge_source_file_frame_witness:
  "sources (merge_source_file ex_snapshot (Some ex_file) ''raw'' ''p'' ''ds'' False False)
     = [ex_other ''a'', ex_other ''b'',
        merge_sources ex_snapshot (Some ex_source) ''raw'' ''p'' ''ds'' False False]
   \<and> version (merge_source_file ex_snapshot (Some ex_file) ''raw'' ''p'' ''ds'' False False) = 3
   \<and> version (merge_source_file ex_snapshot None ''raw'' ''p'' ''ds'' False False) = 2"
  using merge_source_file_frame [of ex_snapshot ex_file "''raw''" "''p''" "''ds''" False False]
  by (simp add: ex_file_def ex_source_def ex_other_def source_matches_def)

section \<open>The claims about the store and the command line\<close>

text \<open>
  Claim C8: the serialized document is the mapping with the keys \<open>version\<close> and \<open>sources\<close>, in
  this order.  The keys of a source, of a table and of a column are the keys of the fixed
  order (source: name, database, schema, description, meta, tables; table: name, identifier,
  description, meta, tests, columns; column: name, data_type, description, meta, tests), in
  that order, without the keys of the optional fields whose value is unset or empty.  No value
  is null, and the value of every optional key that is emitted is truthy: there is no null or
  empty placeholder.
\<close>

theorem serialize_omits_unset_in_fixed_order:
  "serialize_source_file f =
     YMap [(''version'', YInt (version f)),
           (''sources'', YSeq (map (\<lambda>s. YMap (source_data s)) (sources f)))]
   \<and> map fst (source_data s) =
       filter (\<lambda>k. k = ''name'' \<or> k = ''database'' \<and> present (database s)
                 \<or> k = ''schema'' \<and> present (schema_name s)
                 \<or> k = ''description'' \<and> src_description s \<noteq> []
                 \<or> k = ''meta'' \<and> present (src_meta s) \<or> k = ''tables'')
         [''name'', ''database'', ''schema'', ''description'', ''meta'', ''tables'']
   \<and> map fst (table_data t) =
       filter (\<lambda>k. k = ''name'' \<or> k = ''identifier'' \<and> present (tbl_identifier t)
                 \<or> k = ''description'' \<and> tbl_description t \<noteq> []
                 \<or> k = ''meta'' \<and> present (tbl_meta t)
                 \<or> k = ''tests'' \<and> present (tbl_tests t)
                 \<or> k = ''columns'' \<and> tbl_columns t \<noteq> [])
         [''name'', ''identifier'', ''description'', ''meta'', ''tests'', ''columns'']
   \<and> map fst (column_data c) =
       filter (\<lambda>k. k = ''name'' \<or> k = ''data_type'' \<and> present (data_type c)
                 \<or> k = ''description'' \<and> col_description c \<noteq> []
                 \<or> k = ''meta'' \<and> present (col_meta c)
                 \<or> k = ''tests'' \<and> present (col_tests c))
         [''name'', ''data_type'', ''description'', ''meta'', ''tests'']
   \<and> map_of (source_data s) ''tables''
       = Some (YSeq (map (\<lambda>t. YMap (table_data t)) (src_tables s)))
   \<and> map_of (table_data t) ''columns''
       = (if tbl_columns t \<noteq> []
          then Some (YSeq (map (\<lambda>c. YMap (column_data c)) (tbl_columns t)))
          else None)
   \<and> list_all (\<lambda>(k, v). v \<noteq> YNull \<and> (k \<noteq> ''name'' \<and> k \<noteq> ''tables'' \<longrightarrow> truthy v)) (source_data s)
   \<and> list_all (\<lambda>(k, v). v \<noteq> YNull \<and> (k \<noteq> ''name'' \<longrightarrow> truthy v)) (table_data t)
   \<and> list_all (\<lambda>(k, v). v \<noteq> YNull \<and> (k \<noteq> ''name'' \<longrightarrow> truthy v)) (column_data c)"
proof -
  have top: "serialize_source_file f =
     YMap [(''version'', YInt (version f)),
           (''sources'', YSeq (map (\<lambda>s. YMap (source_data s)) (sources f)))]"
    by (simp add: serialize_source_file_def)
  have keys: "map fst (source_data s) =
       filter (\<lambda>k. k = ''name'' \<or> k = ''database'' \<and> present (database s)
                 \<or> k = ''schema'' \<and> present (schema_name s)
                 \<or> k = ''description'' \<and> src_description s \<noteq> []
                 \<or> k = ''meta'' \<and> present (src_meta s) \<or> k = ''tables'')
         [''name'', ''database'', ''schema'', ''description'', ''meta'', ''tables'']"
    "map fst (table_data t) =
       filter (\<lambda>k. k = ''name'' \<or> k = ''identifier'' \<and> present (tbl_identifier t)
                 \<or> k = ''description'' \<and> tbl_description t \<noteq> []
                 \<or> k = ''meta'' \<and> present (tbl_meta t)
                 \<or> k = ''tests'' \<and> present (tbl_tests t)
                 \<or> k = ''columns'' \<and> tbl_columns t \<noteq> [])
         [''name'', ''identifier'', ''description'', ''meta'', ''tests'', ''columns'']"
    "map fst (column_data c) =
       filter (\<lambda>k. k = ''name'' \<or> k = ''data_type'' \<and> present (data_type c)
                 \<or> k = ''description'' \<and> col_description c \<noteq> []
                 \<or> k = ''meta'' \<and> present (col_meta c)
                 \<or> k = ''tests'' \<and> present (col_tests c))
         [''name'', ''data_type'', ''description'', ''meta'', ''tests'']"
    by (simp_all add: source_keys table_keys column_keys)
  note nested = source_get(6) [of s] table_get(6) [of t]
  note vals = source_values [of s] table_values [of t] column_values [of c]
  from top keys nested vals show ?thesis
    by (intro conjI)
qed

theorem serialize_omits_unset_in_fixed_order_witness:
  "map fst (source_data ex_source)
     = [''name'', ''database'', ''schema'', ''description'', ''meta'', ''tables'']
   \<and> map fst (source_data (ex_other ''a'')) = [''name'', ''schema'', ''description'', ''tables'']
   \<and> map fst (table_data ex_table_t2) = [''name'']
   \<and> map fst (table_data ex_table_t1)
     = [''name'', ''identifier'', ''description'', ''meta'', ''tests'', ''columns'']
   \<and> map fst (column_data ex_col_old) = [''name'', ''description'']"
  using serialize_omits_unset_in_fixed_order [of ex_file ex_source ex_table_t2 ex_col_old]
    serialize_omits_unset_in_fixed_order [of ex_file "ex_other ''a''" ex_table_t1 ex_col_old]
  by (simp add: ex_defs present_def)


text \<open>
  Claim C9: the update path of \<open>apply\<close> calls \<open>merge_source_file\<close> with
  \<open>remove_deleted_tables = pruneAbsent\<close> and
  \<open>remove_deleted_columns = pruneAbsent AND syncColumns\<close>, for all values of the two flags
  \<open>--remove-deleted\<close> (pruneAbsent) and \<open>--sync-columns\<close> (syncColumns).
\<close>

theorem apply_flag_mapping:
  "apply_update tables existing_file project_id schema sync_columns remove_deleted =
     merge_source_file tables existing_file
       (case existing_file of None \<Rightarrow> schema | Some f \<Rightarrow> find_source_name schema (sources f))
       project_id schema
       (prune_absent_tables remove_deleted sync_columns)
       (prune_absent_columns remove_deleted sync_columns)"
  by (simp add: apply_update_def prune_absent_tables_def prune_absent_columns_def)

theorem apply_flag_mapping_witness:
  "apply_update ex_snapshot (Some ex_file) ''p'' ''ds'' False True
     = merge_source_file ex_snapshot (Some ex_file) ''raw'' ''p'' ''ds'' True False
   \<and> apply_update ex_snapshot (Some ex_file) ''p'' ''ds'' True True
     = merge_source_file ex_snapshot (Some ex_file) ''raw'' ''p'' ''ds'' True True
   \<and> apply_update ex_snapshot (Some ex_file) ''p'' ''ds'' True False
     = merge_source_file ex_snapshot (Some ex_file) ''raw'' ''p'' ''ds'' False False"
  using apply_flag_mapping [of ex_snapshot "Some ex_file" "''p''" "''ds''" False True]
    apply_flag_mapping [of ex_snapshot "Some ex_file" "''p''" "''ds''" True True]
    apply_flag_mapping [of ex_snapshot "Some ex_file" "''p''" "''ds''" True False]
  by (simp add: prune_absent_tables_def prune_absent_columns_def ex_file_def ex_source_def
      ex_other_def)

text \<open>
  Claim C10 (round trip): parsing the serialized form of a document gives the document in
  which every optional field that is set to an empty value (an empty string, an empty meta
  mapping, an empty tests list) is unset instead.  So parsing after serializing is the
  identity on the documents in which each optional field (database, schema name, identifier,
  data type, meta, tests) is unset or not empty, and on no other document.  Descriptions are
  strings and column lists are lists by the types of the model.
\<close>

theorem parse_serialize_roundtrip:
  "parse_source_file (serialize_source_file f) = Inr (normalize_source_file f)
   \<and> (file_in_domain f \<longrightarrow> parse_source_file (serialize_source_file f) = Inr f)
   \<and> (\<not> file_in_domain f \<longrightarrow> parse_source_file (serialize_source_file f) \<noteq> Inr f)"
proof -
  have norm: "parse_source_file (serialize_source_file f) = Inr (normalize_source_file f)"
    by (rule parse_serialized)
  have "parse_source_file (serialize_source_file f) = Inr f \<longleftrightarrow> normalize_source_file f = f"
    by (simp add: norm)
  also have "\<dots> \<longleftrightarrow> file_in_domain f"
    by (rule normalize_source_file_id)
  finally have "parse_source_file (serialize_source_file f) = Inr f \<longleftrightarrow> file_in_domain f" .
  with norm show ?thesis
    by simp
qed


theorem parse_serialize_roundtrip_witness:
  "file_in_domain ex_file \<and> parse_source_file (serialize_source_file ex_file) = Inr ex_file
   \<and> \<not> file_in_domain ex_empty_fields
   \<and> parse_source_file (serialize_source_file ex_empty_fields) \<noteq> Inr ex_empty_fields
   \<and> parse_source_file (serialize_source_file ex_empty_fields) =
       Inr \<lparr> version = 2,
             sources =
               [\<lparr> src_name = ''raw'', database = None, schema_name = Some ''ds'',
                  src_description = [],
                  src_tables =
                    [\<lparr> tbl_name = ''t1'', tbl_identifier = None, tbl_description = [],
                       tbl_columns =
                         [\<lparr> col_name = ''id'', data_type = None, col_description = [],
                            col_meta = None, col_tests = None \<rparr>],
                       tbl_meta = None, tbl_tests = None \<rparr>],
                  src_meta = None \<rparr>] \<rparr>"
proof -
  have d: "file_in_domain ex_file"
    by (simp add: ex_defs file_in_domain_def source_in_domain_def table_in_domain_def
        column_in_domain_def unset_or_nonempty_def)
  have n: "\<not> file_in_domain ex_empty_fields"
    by (simp add: ex_empty_fields_def file_in_domain_def source_in_domain_def
        table_in_domain_def column_in_domain_def unset_or_nonempty_def)
  have e: "normalize_source_file ex_empty_fields =
       \<lparr> version = 2,
             sources =
               [\<lparr> src_name = ''raw'', database = None, schema_name = Some ''ds'',
                  src_description = [],
                  src_tables =
                    [\<lparr> tbl_name = ''t1'', tbl_identifier = None, tbl_description = [],
                       tbl_columns =
                         [\<lparr> col_name = ''id'', data_type = None, col_description = [],
                            col_meta = None, col_tests = None \<rparr>],
                       tbl_meta = None, tbl_tests = None \<rparr>],
                  src_meta = None \<rparr>] \<rparr>"
    by (simp add: ex_empty_fields_def normalize_source_file_def normalize_source_def
        normalize_table_def normalize_column_def unset_if_empty_def)
  from d parse_serialize_roundtrip [of ex_file]
  have r1: "parse_source_file (serialize_source_file ex_file) = Inr ex_file"
    by blast
  from n parse_serialize_roundtrip [of ex_empty_fields]
  have r2: "parse_source_file (serialize_source_file ex_empty_fields) \<noteq> Inr ex_empty_fields"
    by blast
  from parse_serialize_roundtrip [of ex_empty_fields]
  have r3: "parse_source_file (serialize_source_file ex_empty_fields)
              = Inr (normalize_source_file ex_empty_fields)"
    by blast
  from d r1 n r2 r3 [unfolded e] show ?thesis
    by (intro conjI)
qed

end
